theory Spec2Isabelle
  imports Complex_Main
begin

section \<open>JavaScript strings\<close>

text \<open>
  A JavaScript string is modelled as a \<open>string\<close> (a list of \<open>char\<close>). The ASCII range is
  modelled exactly: the white space of \<open>trim\<close> and of the regular expression class
  \<open>\s\<close> is TAB, LF, VT, FF, CR and SPACE, the line terminators that \<open>.\<close> refuses are LF
  and CR, and case conversion maps the 26 letters. Characters outside ASCII are carried
  along as caseless symbols that are neither white space nor line terminators.
\<close>

definition isWhitespace :: "char \<Rightarrow> bool" where
  "isWhitespace c = (c \<in> set [CHR 0x09, CHR 0x0A, CHR 0x0B, CHR 0x0C, CHR 0x0D, CHR 0x20])"

definition isLineTerminator :: "char \<Rightarrow> bool" where
  "isLineTerminator c = (c \<in> set [CHR 0x0A, CHR 0x0D])"

definition isDigit :: "char \<Rightarrow> bool" where
  "isDigit c = (c \<in> set ''0123456789'')"

definition toUpperChar :: "char \<Rightarrow> char" where
  "toUpperChar c =
     (case map_of (zip ''abcdefghijklmnopqrstuvwxyz'' ''ABCDEFGHIJKLMNOPQRSTUVWXYZ'') c of
        None \<Rightarrow> c | Some u \<Rightarrow> u)"

definition toLowerChar :: "char \<Rightarrow> char" where
  "toLowerChar c =
     (case map_of (zip ''ABCDEFGHIJKLMNOPQRSTUVWXYZ'' ''abcdefghijklmnopqrstuvwxyz'') c of
        None \<Rightarrow> c | Some l \<Rightarrow> l)"

definition toUpperCase :: "string \<Rightarrow> string" where
  "toUpperCase s = map toUpperChar s"

definition toLowerCase :: "string \<Rightarrow> string" where
  "toLowerCase s = map toLowerChar s"

definition trimStart :: "string \<Rightarrow> string" where
  "trimStart s = dropWhile isWhitespace s"

definition trimEnd :: "string \<Rightarrow> string" where
  "trimEnd s = rev (dropWhile isWhitespace (rev s))"

definition trim :: "string \<Rightarrow> string" where
  "trim s = trimEnd (trimStart s)"

text \<open>\<open>s.startsWith(p)\<close> and \<open>s.includes(p)\<close>.\<close>

definition startsWith :: "string \<Rightarrow> string \<Rightarrow> bool" where
  "startsWith s p = (take (length p) s = p)"

fun str_includes :: "string \<Rightarrow> string \<Rightarrow> bool" where
  "str_includes [] p = (p = [])"
| "str_includes (c # cs) p = (if startsWith (c # cs) p then True else str_includes cs p)"

text \<open>
  A literal of a regular expression with the \<open>i\<close> flag, matched at the head of \<open>s\<close>: both
  sides are compared after canonicalisation to upper case. \<open>p\<close> is given in upper case.
\<close>

definition matchLiteralCI :: "string \<Rightarrow> string \<Rightarrow> bool" where
  "matchLiteralCI p s = (toUpperCase (take (length p) s) = p)"

section \<open>The action decoder\<close>

datatype ActionType = Click | Type | Scroll | Done

datatype Direction = Up | Down

text \<open>
  The interface \<open>Action\<close>: a \<open>type\<close> tag and six optional fields (an absent field is
  \<open>None\<close>).
\<close>

record Action =
  a_type :: ActionType
  a_x :: "int option"
  a_y :: "int option"
  a_text :: "string option"
  a_submit :: "bool option"
  a_direction :: "Direction option"
  a_answer :: "string option"

definition mkAction :: "ActionType \<Rightarrow> Action" where
  "mkAction t = \<lparr>a_type = t, a_x = None, a_y = None, a_text = None, a_submit = None,
                 a_direction = None, a_answer = None\<rparr>"

definition scrollAction :: "Direction \<Rightarrow> Action" where
  "scrollAction d = (mkAction Scroll)\<lparr>a_direction := Some d\<rparr>"

subsection \<open>\<open>/DONE\s*(.+)/i\<close>\<close>

text \<open>
  \<open>(.+)\<close> at the head of \<open>r\<close>: the longest run of characters that are not line
  terminators, which must not be empty. Nothing follows it in the expression, so the
  greedy choice is final.
\<close>

definition doneDot :: "string \<Rightarrow> string option" where
  "doneDot r = (let g = takeWhile (\<lambda>c. \<not> isLineTerminator c) r in if g = [] then None else Some g)"

text \<open>
  \<open>\s*\<close> is greedy and backtracks: with \<open>k\<close> white space characters at the head of \<open>r\<close>
  it first gives all \<open>k\<close> to \<open>\s*\<close>, then \<open>k - 1\<close>, down to none, and stops at the first
  length after which \<open>(.+)\<close> matches.
\<close>

fun doneBacktrack :: "nat \<Rightarrow> string \<Rightarrow> string option" where
  "doneBacktrack 0 r = doneDot r"
| "doneBacktrack (Suc k) r =
     (case doneDot (drop (Suc k) r) of Some g \<Rightarrow> Some g | None \<Rightarrow> doneBacktrack k r)"

definition doneAt :: "string \<Rightarrow> string option" where
  "doneAt s =
     (if matchLiteralCI ''DONE'' s
      then doneBacktrack (length (takeWhile isWhitespace (drop 4 s))) (drop 4 s)
      else None)"

text \<open>
  \<open>text.match(re)\<close> without the \<open>g\<close> flag tries the start positions from left to right
  (the end of the input included) and returns the first match; the result here is
  capture group 1, \<open>None\<close> for \<open>null\<close>.
\<close>

fun doneMatch :: "string \<Rightarrow> string option" where
  "doneMatch [] = doneAt []"
| "doneMatch (c # cs) = (case doneAt (c # cs) of Some g \<Rightarrow> Some g | None \<Rightarrow> doneMatch cs)"

subsection \<open>\<open>/CLICK\s+(\d+(?:\.\d+)?)\s+(\d+(?:\.\d+)?)/i\<close>\<close>

text \<open>
  \<open>\d+(?:\.\d+)?\<close> at the head of \<open>s\<close>, greedy: all the digits, then a dot with all the
  digits after it when there is at least one. The result is the number's text and the
  rest of the input. The shorter alternatives that backtracking would try all end before
  a digit or a dot, where the \<open>\s+\<close> that follows the first number cannot match, and
  nothing follows the second number; so the greedy choice is the only one that counts.
  In the same way \<open>\s+\<close> takes all the white space: a shorter run ends before a white
  space character, where \<open>\d\<close> cannot match.
\<close>

definition scanNumber :: "string \<Rightarrow> (string \<times> string) option" where
  "scanNumber s =
     (let ds = takeWhile isDigit s; r = dropWhile isDigit s in
      if ds = [] then None
      else (case r of
              [] \<Rightarrow> Some (ds, r)
            | c # r' \<Rightarrow>
                if c = CHR ''.'' \<and> takeWhile isDigit r' \<noteq> []
                then Some (ds @ [c] @ takeWhile isDigit r', dropWhile isDigit r')
                else Some (ds, r)))"

definition clickAt :: "string \<Rightarrow> (string \<times> string) option" where
  "clickAt s =
     (if matchLiteralCI ''CLICK'' s then
        (let r = drop 5 s in
         if takeWhile isWhitespace r = [] then None
         else (case scanNumber (dropWhile isWhitespace r) of
                 None \<Rightarrow> None
               | Some (n1, r1) \<Rightarrow>
                   if takeWhile isWhitespace r1 = [] then None
                   else (case scanNumber (dropWhile isWhitespace r1) of
                           None \<Rightarrow> None
                         | Some (n2, r2) \<Rightarrow> Some (n1, n2))))
      else None)"

fun clickMatch :: "string \<Rightarrow> (string \<times> string) option" where
  "clickMatch [] = clickAt []"
| "clickMatch (c # cs) = (case clickAt (c # cs) of Some m \<Rightarrow> Some m | None \<Rightarrow> clickMatch cs)"

text \<open>
  \<open>Math.round(parseFloat(s))\<close> for a text \<open>s\<close> of the shape \<open>\d+(?:\.\d+)?\<close>. The model
  computes with the exact decimal value where JavaScript computes with the nearest
  double; the two agree on every number of at most 15 significant digits.
  \<open>Math.round\<close> rounds halves up.
\<close>

definition digitValue :: "char \<Rightarrow> nat" where
  "digitValue c = (case map_of (zip ''0123456789'' [0, 1, 2, 3, 4, 5, 6, 7, 8, 9]) c of
                     None \<Rightarrow> 0 | Some d \<Rightarrow> d)"

definition digitsValue :: "string \<Rightarrow> nat" where
  "digitsValue ds = foldl (\<lambda>n c. 10 * n + digitValue c) 0 ds"

definition parseFloat :: "string \<Rightarrow> rat" where
  "parseFloat s =
     (let ip = takeWhile isDigit s; fp = takeWhile isDigit (drop 1 (dropWhile isDigit s)) in
      of_nat (digitsValue ip) + of_nat (digitsValue fp) / of_nat (10 ^ length fp))"

definition Math_round :: "rat \<Rightarrow> int" where
  "Math_round q = \<lfloor>q + 1 / 2\<rfloor>"

subsection \<open>\<open>/TYPE\s+(.+?)(?:\s+SUBMIT)?$/i\<close>\<close>

text \<open>
  \<open>(?:\s+SUBMIT)$\<close> at the head of \<open>r\<close>: white space, then \<open>SUBMIT\<close> in any case, then the
  end of the input (the expression has no \<open>m\<close> flag). A shorter run of white space ends
  before a white space character, where \<open>S\<close> cannot match.
\<close>

definition submitTail :: "string \<Rightarrow> bool" where
  "submitTail r = (takeWhile isWhitespace r \<noteq> [] \<and> toUpperCase (dropWhile isWhitespace r) = ''SUBMIT'')"

text \<open>
  \<open>(.+?)\<close> is lazy: it takes one character that is no line terminator, and then grows
  by one such character at a time until what follows is \<open>\s+SUBMIT\<close> and the end of the
  input, or the end of the input itself. \<open>g\<close> is the group so far and the second argument
  the input after it.
\<close>

fun typeLazy :: "string \<Rightarrow> string \<Rightarrow> string option" where
  "typeLazy g [] = (if g = [] then None else Some g)"
| "typeLazy g (c # cs) =
     (if g \<noteq> [] \<and> submitTail (c # cs) then Some g
      else if isLineTerminator c then None
      else typeLazy (g @ [c]) cs)"

text \<open>
  \<open>\s+\<close> is greedy and backtracks from all \<open>k\<close> white space characters at the head
  of \<open>r\<close> down to one.
\<close>

fun typeBacktrack :: "nat \<Rightarrow> string \<Rightarrow> string option" where
  "typeBacktrack 0 r = None"
| "typeBacktrack (Suc k) r =
     (case typeLazy [] (drop (Suc k) r) of Some g \<Rightarrow> Some g | None \<Rightarrow> typeBacktrack k r)"

definition typeAt :: "string \<Rightarrow> string option" where
  "typeAt s =
     (if matchLiteralCI ''TYPE'' s
      then typeBacktrack (length (takeWhile isWhitespace (drop 4 s))) (drop 4 s)
      else None)"

fun typeMatch :: "string \<Rightarrow> string option" where
  "typeMatch [] = typeAt []"
| "typeMatch (c # cs) = (case typeAt (c # cs) of Some g \<Rightarrow> Some g | None \<Rightarrow> typeMatch cs)"

subsection \<open>\<open>parseAction\<close> and \<open>validateCoordinates\<close>\<close>

definition parseAction :: "string \<Rightarrow> Action" where
  "parseAction text =
     (let cleanText = toUpperCase (trim text) in
      if startsWith cleanText ''DONE'' then
        (mkAction Done)\<lparr>a_answer :=
           Some (case doneMatch text of Some g \<Rightarrow> trim g | None \<Rightarrow> ''Task completed'')\<rparr>
      else (case clickMatch text of
        Some (n1, n2) \<Rightarrow>
          (mkAction Click)\<lparr>a_x := Some (Math_round (parseFloat n1)),
                            a_y := Some (Math_round (parseFloat n2))\<rparr>
      | None \<Rightarrow>
          (case typeMatch text of
             Some g \<Rightarrow>
               (mkAction Type)\<lparr>a_text := Some (trim g),
                                a_submit := Some (str_includes (toLowerCase text) ''submit'')\<rparr>
           | None \<Rightarrow>
               if str_includes cleanText ''SCROLL DOWN'' then scrollAction Down
               else if str_includes cleanText ''SCROLL UP'' then scrollAction Up
               else scrollAction Down)))"

text \<open>
  \<open>validateCoordinates(x, y, viewportWidth, viewportHeight)\<close>; the coordinates the decoder
  produces are integers.
\<close>

definition validateCoordinates :: "int \<Rightarrow> int \<Rightarrow> int \<Rightarrow> int \<Rightarrow> bool" where
  "validateCoordinates x y viewportWidth viewportHeight =
     (x \<ge> 0 \<and> x \<le> viewportWidth \<and> y \<ge> 0 \<and> y \<le> viewportHeight)"


section \<open>Contacts\<close>

text \<open>
  \<open>ContactResult\<close> of the contact search agent; the vision agent's contacts (\<open>any[]\<close>,
  built by its DOM extraction) carry the same fields without \<open>validation\<close> and have
  sources of their own. A confidence is modelled as an exact rational number where
  JavaScript has a double.
\<close>

datatype ContactType = Email | Phone | Address | Social | General

datatype ContactSource = FromText | FromVision | FromBoth | FromDom | FromGemini | FromScreenshot

record Validation =
  v_domainMatch :: "bool option"
  v_patternMatch :: "bool option"
  v_locationMatch :: "bool option"

record Contact =
  c_value :: string
  c_type :: ContactType
  c_confidence :: rat
  c_source :: ContactSource
  c_context :: string
  c_validation :: "Validation option"

subsection \<open>\<open>_deduplicateContacts\<close>\<close>

text \<open>
  \<open>contacts.filter(...)\<close> with the set \<open>seen\<close> of the lower-cased values met so far: the
  first contact of every value stays.
\<close>

fun deduplicateFrom :: "string set \<Rightarrow> Contact list \<Rightarrow> Contact list" where
  "deduplicateFrom seen [] = []"
| "deduplicateFrom seen (contact # contacts) =
     (if toLowerCase (c_value contact) \<in> seen then deduplicateFrom seen contacts
      else contact # deduplicateFrom (insert (toLowerCase (c_value contact)) seen) contacts)"

definition deduplicateContacts :: "Contact list \<Rightarrow> Contact list" where
  "deduplicateContacts contacts = deduplicateFrom {} contacts"

subsection \<open>\<open>visionAgentUtils.cleanupContacts\<close>\<close>

text \<open>\<open>xs.findIndex(p)\<close>: the index of the first element that satisfies \<open>p\<close>, or \<open>-1\<close>.\<close>

fun findIndex :: "('a \<Rightarrow> bool) \<Rightarrow> 'a list \<Rightarrow> int" where
  "findIndex p [] = - 1"
| "findIndex p (x # xs) =
     (if p x then 0 else (let i = findIndex p xs in if i < 0 then - 1 else i + 1))"

text \<open>
  \<open>contacts.filter((contact, index, self) => index === self.findIndex(...))\<close>: the elements
  are paired with their indices.
\<close>

definition uniqueContacts :: "Contact list \<Rightarrow> Contact list" where
  "uniqueContacts contacts =
     map snd (filter
       (\<lambda>(index, contact).
          int index = findIndex (\<lambda>c. toLowerCase (c_value c) = toLowerCase (c_value contact)) contacts)
       (enumerate 0 contacts))"

text \<open>
  \<open>Array.prototype.sort\<close> is stable, and the comparator
  \<open>(b.confidence || 0) - (a.confidence || 0)\<close> orders by falling confidence
  (\<open>confidence || 0\<close> is the confidence itself for a number). It is modelled by the
  library's stable insertion sort on the key \<open>- confidence\<close>.
\<close>

definition cleanupContacts :: "Contact list \<Rightarrow> Contact list" where
  "cleanupContacts contacts =
     take 10 (filter (\<lambda>c. c_confidence c > 5 / 10)
       (sort_key (\<lambda>c. - c_confidence c) (uniqueContacts contacts)))"

subsection \<open>The validators of the contact search agent\<close>

text \<open>\<open>/^[^\s@]+@[^\s@]+\.[^\s@]+$/.test(email)\<close>: no white space, exactly one \<open>@\<close> with
  text before it, and after it a dot that is neither the first nor the last character.\<close>

definition emailPattern :: "string \<Rightarrow> bool" where
  "emailPattern email =
     (let localPart = takeWhile (\<lambda>c. c \<noteq> CHR ''@'') email;
          rest = dropWhile (\<lambda>c. c \<noteq> CHR ''@'') email in
      localPart \<noteq> [] \<and> list_all (\<lambda>c. \<not> isWhitespace c) localPart \<and>
      (case rest of
         [] \<Rightarrow> False
       | atSign # domainPart \<Rightarrow>
           list_all (\<lambda>c. \<not> isWhitespace c \<and> c \<noteq> CHR ''@'') domainPart \<and>
           CHR ''.'' \<in> set (tl (butlast domainPart))))"

text \<open>\<open>s.split(/\s+/)\<close>: the pieces between the maximal runs of white space; white space
  at either end leaves an empty piece there.\<close>

function splitWhitespace :: "string \<Rightarrow> string list" where
  "splitWhitespace s =
     (let piece = takeWhile (\<lambda>c. \<not> isWhitespace c) s;
          rest = dropWhile (\<lambda>c. \<not> isWhitespace c) s in
      if rest = [] then [piece] else piece # splitWhitespace (dropWhile isWhitespace rest))"
  by pat_completeness auto
termination
proof (relation "measure length")
  fix s piece rest
  assume rest: "rest = dropWhile (\<lambda>c. \<not> isWhitespace c) s" and ne: "rest \<noteq> []"
  have "length (dropWhile isWhitespace rest) < length rest"
  proof (cases rest)
    case Nil
    with ne show ?thesis by simp
  next
    case (Cons c cs)
    with rest have "isWhitespace c"
      by (metis (mono_tags, lifting) hd_dropWhile list.sel(1) list.distinct(1))
    with Cons show ?thesis
      by (simp add: le_imp_less_Suc length_dropWhile_le)
  qed
  moreover have "length rest \<le> length s"
    using rest by (simp add: length_dropWhile_le)
  ultimately show "(dropWhile isWhitespace rest, s) \<in> measure length" by simp
qed simp

declare splitWhitespace.simps [simp del]

text \<open>\<open>email.split('@')[1]?.toLowerCase() || ''\<close>: the text between the first \<open>@\<close> and the
  next one (or the end), empty when there is no \<open>@\<close>.\<close>

definition emailDomain :: "string \<Rightarrow> string" where
  "emailDomain email =
     toLowerCase (takeWhile (\<lambda>c. c \<noteq> CHR ''@'') (drop 1 (dropWhile (\<lambda>c. c \<noteq> CHR ''@'') email)))"

record EmailValidation =
  ev_confidence :: rat
  ev_domainMatch :: bool
  ev_patternMatch :: bool

text \<open>\<open>_validateEmail(email, target)\<close>; \<open>if (target)\<close> holds for a string that is not
  empty.\<close>

definition validateEmail :: "string \<Rightarrow> string \<Rightarrow> EmailValidation" where
  "validateEmail email target =
     (let patternMatch = emailPattern email;
          confidence0 = (if patternMatch then 8 / 10 else 3 / 10);
          domainMatch = (target \<noteq> [] \<and>
             list_ex (\<lambda>part. str_includes (emailDomain email) part)
               (splitWhitespace (toLowerCase target)));
          confidence1 = (if domainMatch then confidence0 + 15 / 100 else confidence0);
          confidence2 =
            (if str_includes (toLowerCase email) ''contact'' \<or>
                str_includes (toLowerCase email) ''info'' \<or>
                str_includes (toLowerCase email) ''support''
             then confidence1 + 1 / 10 else confidence1)
      in \<lparr>ev_confidence = min confidence2 1, ev_domainMatch = domainMatch,
          ev_patternMatch = patternMatch\<rparr>)"

text \<open>\<open>/^[\+]?[1-9][\d]{0,15}$/.test(cleanPhone)\<close>.\<close>

definition phonePattern :: "string \<Rightarrow> bool" where
  "phonePattern cleanPhone =
     (let digits = (case cleanPhone of c # cs \<Rightarrow> if c = CHR ''+'' then cs else c # cs | [] \<Rightarrow> [])
      in (case digits of
            [] \<Rightarrow> False
          | d # ds \<Rightarrow> d \<in> set ''123456789'' \<and> list_all isDigit ds \<and> length ds \<le> 15))"

record PhoneValidation =
  pv_confidence :: rat
  pv_patternMatch :: bool
  pv_areaCodeMatchesLocation :: bool

text \<open>\<open>_validatePhone(phone, location)\<close>. The area code is cut out of the number but
  never compared: the test is whether the location names one of the listed places.\<close>

definition areaCodeLocations :: "string list" where
  "areaCodeLocations =
     [''New York'', ''NY'', ''Los Angeles'', ''CA'', ''San Francisco'', ''CA'',
      ''Boston'', ''MA'', ''Seattle'', ''WA'']"

definition validatePhone :: "string \<Rightarrow> string option \<Rightarrow> PhoneValidation" where
  "validatePhone phone location =
     (let cleanPhone = filter (\<lambda>c. \<not> (isWhitespace c \<or> c \<in> set ''-()'')) phone;
          patternMatch = phonePattern cleanPhone;
          confidence0 = (if patternMatch then 75 / 100 else 3 / 10);
          areaCodeMatchesLocation =
            (case location of
               None \<Rightarrow> False
             | Some loc \<Rightarrow>
                 loc \<noteq> [] \<and> startsWith cleanPhone ''1'' \<and>
                 list_ex (\<lambda>place. str_includes (toLowerCase loc) (toLowerCase place))
                   areaCodeLocations);
          confidence1 = (if areaCodeMatchesLocation then confidence0 + 15 / 100 else confidence0)
      in \<lparr>pv_confidence = min confidence1 1, pv_patternMatch = patternMatch,
          pv_areaCodeMatchesLocation = areaCodeMatchesLocation\<rparr>)"

record AddressValidation =
  av_confidence :: rat
  av_locationMatch :: bool

definition addressPatterns :: "string list" where
  "addressPatterns =
     [''st'', ''street'', ''ave'', ''avenue'', ''rd'', ''road'', ''blvd'', ''boulevard'',
      ''suite'', ''floor'']"

definition validateAddress :: "string \<Rightarrow> string \<Rightarrow> string option \<Rightarrow> AddressValidation" where
  "validateAddress address target location =
     (let locationMatch =
            (case location of
               None \<Rightarrow> False
             | Some loc \<Rightarrow> loc \<noteq> [] \<and> str_includes (toLowerCase address) (toLowerCase loc));
          confidence0 = (if locationMatch then 6 / 10 + 2 / 10 else 6 / 10);
          confidence1 =
            (if target \<noteq> [] \<and> str_includes (toLowerCase address) (toLowerCase target)
             then confidence0 + 15 / 100 else confidence0);
          confidence2 =
            (if list_ex (\<lambda>pattern. str_includes (toLowerCase address) pattern) addressPatterns
             then confidence1 + 1 / 10 else confidence1)
      in \<lparr>av_confidence = min confidence2 1, av_locationMatch = locationMatch\<rparr>)"

subsection \<open>\<open>contact_validation_tool\<close> and the merge of \<open>contact_extraction_tool\<close>\<close>

definition contactTypeName :: "ContactType \<Rightarrow> string" where
  "contactTypeName t =
     (case t of Email \<Rightarrow> ''email'' | Phone \<Rightarrow> ''phone'' | Address \<Rightarrow> ''address''
      | Social \<Rightarrow> ''social'' | General \<Rightarrow> ''general'')"

text \<open>
  The body of the loop over the contacts. The pairs are the variables \<open>confidence\<close> and
  \<open>validation\<close> after each of the three \<open>if\<close> statements; \<open>if (location)\<close> holds for a
  string that is present and not empty.
\<close>

definition validateContact ::
  "string \<Rightarrow> ContactType \<Rightarrow> string option \<Rightarrow> Contact \<Rightarrow> Contact" where
  "validateContact target contactType location contact =
     (let start = (5 / 10,
            \<lparr>v_domainMatch = Some False, v_patternMatch = Some False,
             v_locationMatch = Some False\<rparr>);
          afterEmail =
            (if contactType = Email \<and> c_type contact = Email then
               (let emailValidation = validateEmail (c_value contact) target in
                (ev_confidence emailValidation,
                 (snd start)\<lparr>v_domainMatch := Some (ev_domainMatch emailValidation),
                             v_patternMatch := Some (ev_patternMatch emailValidation)\<rparr>))
             else start);
          afterPhone =
            (if contactType = Phone \<and> c_type contact = Phone then
               (let phoneValidation = validatePhone (c_value contact) location;
                    validation1 =
                      (snd afterEmail)\<lparr>v_patternMatch := Some (pv_patternMatch phoneValidation)\<rparr>
                in (pv_confidence phoneValidation,
                    if location \<noteq> None \<and> location \<noteq> Some []
                    then validation1\<lparr>v_locationMatch :=
                           Some (pv_areaCodeMatchesLocation phoneValidation)\<rparr>
                    else validation1))
             else afterEmail);
          afterAddress =
            (if contactType = Address \<and> c_type contact = Address then
               (let addressValidation = validateAddress (c_value contact) target location in
                (av_confidence addressValidation,
                 (snd afterPhone)\<lparr>v_locationMatch := Some (av_locationMatch addressValidation)\<rparr>))
             else afterPhone);
          confidence1 =
            (if c_source contact = FromVision then fst afterAddress * (9 / 10)
             else fst afterAddress);
          confidence2 =
            (if c_source contact = FromBoth then confidence1 * (11 / 10) else confidence1)
      in contact\<lparr>c_confidence := min confidence2 1,
                 c_context := target @ '' - '' @ contactTypeName contactType @ '' contact'',
                 c_validation := Some (snd afterAddress)\<rparr>)"

text \<open>
  The tool's output: \<open>validatedContacts\<close>, every contact with its new confidence, and
  \<open>highConfidenceContacts\<close>, those of confidence \<open>0.6\<close> and more.
\<close>

record ValidationOutput =
  validatedContacts :: "Contact list"
  highConfidenceContacts :: "Contact list"

definition contactValidationTool ::
  "Contact list \<Rightarrow> string \<Rightarrow> ContactType \<Rightarrow> string option \<Rightarrow> ValidationOutput" where
  "contactValidationTool contacts target contactType location =
     (let validated = map (validateContact target contactType location) contacts
      in \<lparr>validatedContacts = validated,
          highConfidenceContacts = filter (\<lambda>c. c_confidence c \<ge> 6 / 10) validated\<rparr>)"

text \<open>The search parameters the merge reads.\<close>

record ContactSearchParams =
  p_target :: string
  p_contactType :: ContactType
  p_location :: "string option"

text \<open>
  Steps 5 and 6 of \<open>contact_extraction_tool\<close>, from the contacts of the two extractors to
  the \<open>validatedContacts\<close> of the tool's answer. The validation tool is registered in the
  agent's constructor and answers with \<open>ok: true\<close>.
\<close>

definition extractionMerge ::
  "Contact list \<Rightarrow> Contact list \<Rightarrow> bool \<Rightarrow> ContactSearchParams \<Rightarrow> Contact list" where
  "extractionMerge textContacts visionContacts validateContacts params =
     (let allContacts = textContacts @ visionContacts;
          uniqueContacts = deduplicateContacts allContacts
      in if validateContacts
         then validatedContacts
                (contactValidationTool uniqueContacts (p_target params) (p_contactType params)
                   (p_location params))
         else uniqueContacts)"

section \<open>The browser adapter\<close>

text \<open>
  A thrown JavaScript error: its \<open>name\<close> and its \<open>message\<close>. \<open>String(error)\<close> is the name,
  a colon and the message; \<open>new Error(msg)\<close> has the name \<open>Error\<close>. An asynchronous call
  that can reject is modelled by its outcome: \<open>Inl\<close> the error thrown at the \<open>await\<close>,
  \<open>Inr\<close> the value.
\<close>

record JsError =
  e_name :: string
  e_message :: string

definition errorString :: "JsError \<Rightarrow> string" where
  "errorString e = e_name e @ '': '' @ e_message e"

definition newError :: "string \<Rightarrow> JsError" where
  "newError msg = \<lparr>e_name = ''Error'', e_message = msg\<rparr>"

text \<open>Template literals print a number in decimal.\<close>

definition digitChar :: "nat \<Rightarrow> char" where
  "digitChar d = ''0123456789'' ! (d mod 10)"

fun showNat :: "nat \<Rightarrow> string" where
  "showNat n = (if n < 10 then [digitChar n] else showNat (n div 10) @ [digitChar (n mod 10)])"

declare showNat.simps [simp del]

definition showInt :: "int \<Rightarrow> string" where
  "showInt i = (if i < 0 then ''-'' @ showNat (nat (- i)) else showNat (nat i))"

definition withErrorHandling :: "string \<Rightarrow> JsError + 'a \<Rightarrow> JsError + 'a" where
  "withErrorHandling operation outcome =
     (case outcome of
        Inl error \<Rightarrow>
          Inl (newError (''Browser operation failed ('' @ operation @ ''): '' @ errorString error))
      | Inr v \<Rightarrow> Inr v)"

record Viewport =
  vp_width :: int
  vp_height :: int

text \<open>
  \<open>getViewportDimensions\<close> of the adapter: the native module's answer when there is one
  (\<open>None\<close>: no module, no such method, a rejected call or an empty answer), the default
  otherwise.
\<close>

definition getViewportDimensions :: "Viewport option \<Rightarrow> Viewport" where
  "getViewportDimensions native =
     (case native of Some dimensions \<Rightarrow> dimensions
      | None \<Rightarrow> \<lparr>vp_width = 390, vp_height = 844\<rparr>)"

datatype GestureType = Tap | Swipe

record Gesture =
  g_type :: GestureType
  g_x :: int
  g_y :: int
  g_duration :: int

datatype KeyEvent = KeyText char | KeyCode nat

text \<open>The gesture \<open>browser.click(x, y)\<close> hands to \<open>api.dispatchGesture\<close>.\<close>

definition clickGesture :: "Viewport \<Rightarrow> int \<Rightarrow> int \<Rightarrow> Gesture" where
  "clickGesture viewport x y =
     \<lparr>g_type = Tap,
      g_x = max 0 (min x (vp_width viewport - 1)),
      g_y = max 0 (min y (vp_height viewport - 1)),
      g_duration = 100\<rparr>"

definition browser_newTab :: "(string \<Rightarrow> JsError + unit) \<Rightarrow> string \<Rightarrow> JsError + unit" where
  "browser_newTab loadURL url =
     (case loadURL url of
        Inl error \<Rightarrow> Inl (newError (''Failed to navigate to '' @ url @ '': '' @ errorString error))
      | Inr u \<Rightarrow> Inr u)"

definition browser_click ::
  "Viewport option \<Rightarrow> (Gesture \<Rightarrow> JsError + unit) \<Rightarrow> int \<Rightarrow> int \<Rightarrow> JsError + unit" where
  "browser_click native dispatchGesture x y =
     (let viewport = getViewportDimensions native;
          gesture = clickGesture viewport x y
      in case dispatchGesture gesture of
           Inl error \<Rightarrow>
             Inl (newError (''Click failed at ('' @ showInt (g_x gesture) @ '', '' @
                            showInt (g_y gesture) @ ''): '' @ errorString error))
         | Inr u \<Rightarrow> Inr u)"

fun typeChars :: "(KeyEvent \<Rightarrow> JsError + unit) \<Rightarrow> string \<Rightarrow> JsError + unit" where
  "typeChars dispatchKeyEvent [] = Inr ()"
| "typeChars dispatchKeyEvent (c # cs) =
     (case dispatchKeyEvent (KeyText c) of
        Inl error \<Rightarrow> Inl error
      | Inr u \<Rightarrow> typeChars dispatchKeyEvent cs)"

definition browser_type :: "(KeyEvent \<Rightarrow> JsError + unit) \<Rightarrow> string \<Rightarrow> bool \<Rightarrow> JsError + unit" where
  "browser_type dispatchKeyEvent txt submit =
     (case (case typeChars dispatchKeyEvent txt of
              Inl error \<Rightarrow> Inl error
            | Inr u \<Rightarrow> if submit then dispatchKeyEvent (KeyCode 66) else Inr ()) of
        Inl error \<Rightarrow> Inl (newError (''Typing failed: '' @ errorString error))
      | Inr u \<Rightarrow> Inr u)"

definition directionName :: "Direction \<Rightarrow> string" where
  "directionName d = (case d of Up \<Rightarrow> ''up'' | Down \<Rightarrow> ''down'')"

definition browser_scroll :: "(Direction \<Rightarrow> JsError + unit) \<Rightarrow> bool \<Rightarrow> JsError + unit" where
  "browser_scroll scrollBy down =
     (let direction = (if down then Down else Up)
      in case scrollBy direction of
           Inl error \<Rightarrow>
             Inl (newError (''Scroll '' @ directionName direction @ '' failed: '' @
                            errorString error))
         | Inr u \<Rightarrow> Inr u)"

section \<open>The agent loop\<close>

text \<open>
  What the world outside answers during one run. Every call a step makes is indexed by
  the step's number (\<open>0\<close> before and after the loop); no step makes the same call twice.
  \<^item> \<open>w_loadURL\<close>, \<open>w_dispatchGesture\<close>, \<open>w_dispatchKeyEvent\<close>, \<open>w_scrollBy\<close>: the native
    methods behind \<open>browser.newTab\<close>, \<open>click\<close>, \<open>type\<close> and \<open>scroll\<close>;
  \<^item> \<open>w_nativeViewport\<close>: the native viewport the adapter reads before a click;
  \<^item> \<open>w_screenshot\<close>, \<open>w_getCurrentURL\<close>: the outcomes of \<open>browser.screenshot()\<close> and
    \<open>browser.getCurrentURL()\<close>; the object \<open>browser\<close> of the adapter has neither
    member, so with that adapter both are \<open>Inl\<close> of a \<open>TypeError\<close>;
  \<^item> \<open>w_modelText\<close>: the text of the model's answer to \<open>nextAction\<close>, \<open>None\<close> when the
    request fails, the status is not ok or the answer holds no text;
  \<^item> \<open>w_domContacts\<close>: the contacts the DOM extraction script reports, \<open>None\<close> when
    its evaluation or the parsing of its answer throws.
  The progress callback \<open>onProgress\<close> is optional and is left out.
\<close>

record World =
  w_loadURL :: "string \<Rightarrow> JsError + unit"
  w_screenshot :: "nat \<Rightarrow> JsError + string"
  w_modelText :: "nat \<Rightarrow> string option"
  w_nativeViewport :: "nat \<Rightarrow> Viewport option"
  w_dispatchGesture :: "nat \<Rightarrow> Gesture \<Rightarrow> JsError + unit"
  w_dispatchKeyEvent :: "nat \<Rightarrow> KeyEvent \<Rightarrow> JsError + unit"
  w_scrollBy :: "nat \<Rightarrow> Direction \<Rightarrow> JsError + unit"
  w_getCurrentURL :: "nat \<Rightarrow> JsError + string"
  w_domContacts :: "nat \<Rightarrow> Contact list option"

text \<open>
  \<open>nextAction\<close>: every failure inside it is caught and answered by scrolling down, and so
  is an answer without text; the text is trimmed before it is parsed.
\<close>

definition nextAction :: "string option \<Rightarrow> Action" where
  "nextAction reply =
     (case reply of
        None \<Rightarrow> scrollAction Down
      | Some raw \<Rightarrow> (let txt = trim raw in if txt = [] then scrollAction Down else parseAction txt))"

text \<open>\<open>getViewportDimensions\<close> of the vision driver, which the loop validates against.\<close>

definition driverViewport :: Viewport where
  "driverViewport = \<lparr>vp_width = 375, vp_height = 812\<rparr>"

record AgentResult =
  r_success :: bool
  r_answer :: "string option"
  r_steps :: nat
  r_actions :: "string list"
  r_contacts :: "Contact list"
  r_error :: "string option"
  r_finalURL :: "string option"

definition pushAction :: "AgentResult \<Rightarrow> string \<Rightarrow> AgentResult" where
  "pushAction result line = result\<lparr>r_actions := r_actions result @ [line]\<rparr>"

definition actionTypeName :: "ActionType \<Rightarrow> string" where
  "actionTypeName t =
     (case t of Click \<Rightarrow> ''click'' | Type \<Rightarrow> ''type'' | Scroll \<Rightarrow> ''scroll'' | Done \<Rightarrow> ''done'')"

text \<open>A number is truthy when it is present and not \<open>0\<close>, a string when it is present and
  not empty.\<close>

definition truthyNumber :: "int option \<Rightarrow> bool" where
  "truthyNumber n = (n \<noteq> None \<and> n \<noteq> Some 0)"

definition truthyString :: "string option \<Rightarrow> bool" where
  "truthyString s = (s \<noteq> None \<and> s \<noteq> Some [])"

definition geminiActionLine :: "Action \<Rightarrow> string" where
  "geminiActionLine action =
     ''Gemini Action: '' @ actionTypeName (a_type action) @
     (if truthyString (a_text action) then '' '' @ [CHR 0x22] @ the (a_text action) @ [CHR 0x22]
      else []) @
     (if truthyNumber (a_x action)
      then '' ('' @ showInt (the (a_x action)) @ '','' @
           (case a_y action of Some y \<Rightarrow> showInt y | None \<Rightarrow> ''undefined'') @ '')''
      else [])"

text \<open>\<open>[...new Set(xs)]\<close>: the elements in the order of their first insertion.\<close>

primrec insertAll :: "'a list \<Rightarrow> 'a list \<Rightarrow> 'a list" where
  "insertAll seen [] = seen"
| "insertAll seen (x # xs) = insertAll (if x \<in> set seen then seen else seen @ [x]) xs"

definition newSet :: "'a list \<Rightarrow> 'a list" where
  "newSet xs = insertAll [] xs"

definition extractContactsFromCurrentPage :: "World \<Rightarrow> nat \<Rightarrow> Contact list" where
  "extractContactsFromCurrentPage w n = (case w_domContacts w n of None \<Rightarrow> [] | Some cs \<Rightarrow> cs)"

definition extractFinalContacts :: "World \<Rightarrow> nat \<Rightarrow> Contact list" where
  "extractFinalContacts w n = extractContactsFromCurrentPage w n"

text \<open>
  The \<open>switch\<close> of step 5 for the three actions that do not end the run: \<open>Inl\<close> the error
  thrown, \<open>Inr\<close> the result record after the action.
\<close>

definition executeAction :: "World \<Rightarrow> nat \<Rightarrow> Action \<Rightarrow> AgentResult \<Rightarrow> JsError + AgentResult" where
  "executeAction w n action result =
     (case a_type action of
        Click \<Rightarrow>
          if truthyNumber (a_x action) \<and> truthyNumber (a_y action) then
            (let x = the (a_x action); y = the (a_y action); viewport = driverViewport in
             if validateCoordinates x y (vp_width viewport) (vp_height viewport) then
               (case withErrorHandling ''click''
                       (browser_click (w_nativeViewport w n) (w_dispatchGesture w n) x y) of
                  Inl error \<Rightarrow> Inl error
                | Inr u \<Rightarrow>
                    Inr (pushAction result
                           (''Clicked at ('' @ showInt x @ '', '' @ showInt y @ '')'')))
             else
               (case browser_scroll (w_scrollBy w n) True of
                  Inl error \<Rightarrow> Inl error
                | Inr u \<Rightarrow> Inr result))
          else Inr result
      | Type \<Rightarrow>
          if truthyString (a_text action) then
            (case withErrorHandling ''type''
                    (browser_type (w_dispatchKeyEvent w n) (the (a_text action))
                       (a_submit action = Some True)) of
               Inl error \<Rightarrow> Inl error
             | Inr u \<Rightarrow>
                 Inr (pushAction result
                        (''Typed: '' @ [CHR 0x22] @ the (a_text action) @ [CHR 0x22] @
                         (if a_submit action = Some True then '' + Enter'' else []))))
          else Inr result
      | Scroll \<Rightarrow>
          (case withErrorHandling ''scroll''
                  (browser_scroll (w_scrollBy w n) (a_direction action = Some Down)) of
             Inl error \<Rightarrow> Inl error
           | Inr u \<Rightarrow>
               Inr (pushAction result
                      (''Scrolled '' @
                       (case a_direction action of Some d \<Rightarrow> directionName d | None \<Rightarrow> ''down''))))
      | Done \<Rightarrow> Inr result)"

text \<open>
  One pass through the body of the \<open>while\<close> loop, for the step numbered \<open>currentStep\<close>
  (already incremented): it goes on with a new result record and contact list, returns
  the result from inside the loop (a \<open>done\<close> action), or throws. The variables \<open>result\<close>
  and \<open>extractedContacts\<close> are declared outside the \<open>try\<close> block, so a throw carries their
  values at that moment.
\<close>

datatype StepOutcome =
  Continue AgentResult "Contact list"
| Return AgentResult
| Throw JsError AgentResult "Contact list"

definition iteration :: "World \<Rightarrow> nat \<Rightarrow> Contact list \<Rightarrow> AgentResult \<Rightarrow> StepOutcome" where
  "iteration w currentStep extractedContacts result0 =
     (let result1 = result0\<lparr>r_steps := currentStep\<rparr> in
      case withErrorHandling ''screenshot'' (w_screenshot w currentStep) of
        Inl error \<Rightarrow> Throw error result1 extractedContacts
      | Inr screenshot \<Rightarrow>
          (let result2 = pushAction result1 (''Screenshot #'' @ showNat currentStep);
               action = nextAction (w_modelText w currentStep);
               result3 = pushAction result2 (geminiActionLine action)
           in if a_type action = Done then
                (let result4 = result3\<lparr>r_success := True,
                       r_answer := Some (if truthyString (a_answer action) then the (a_answer action)
                                         else ''Task completed successfully'')\<rparr>
                 in case w_getCurrentURL w currentStep of
                      Inl error \<Rightarrow> Throw error result4 extractedContacts
                    | Inr url \<Rightarrow>
                        (let extracted = (if extractedContacts = [] then extractFinalContacts w currentStep
                                          else extractedContacts)
                         in Return (result4\<lparr>r_finalURL := Some url, r_contacts := extracted\<rparr>)))
              else
                (case executeAction w currentStep action result3 of
                   Inl error \<Rightarrow> Throw error result3 extractedContacts
                 | Inr result4 \<Rightarrow>
                     if a_type action = Click \<or> a_type action = Type then
                       (let newContacts = extractContactsFromCurrentPage w currentStep
                        in if newContacts \<noteq> []
                           then Continue result4 (newSet (extractedContacts @ newContacts))
                           else Continue result4 extractedContacts)
                     else Continue result4 extractedContacts)))"

text \<open>
  The \<open>while (currentStep < maxSteps)\<close> loop. It ends by a \<open>return\<close> inside the loop, by
  running out of steps, or by a throw.
\<close>

datatype Completion =
  Returned AgentResult
| Finished AgentResult "Contact list"
| Thrown JsError AgentResult "Contact list"

function agentLoop ::
  "World \<Rightarrow> int \<Rightarrow> nat \<Rightarrow> Contact list \<Rightarrow> AgentResult \<Rightarrow> Completion" where
  "agentLoop w maxSteps currentStep extractedContacts result =
     (if int currentStep < maxSteps then
        (case iteration w (Suc currentStep) extractedContacts result of
           Continue result' extracted' \<Rightarrow> agentLoop w maxSteps (Suc currentStep) extracted' result'
         | Return result' \<Rightarrow> Returned result'
         | Throw error result' extracted' \<Rightarrow> Thrown error result' extracted')
      else Finished result extractedContacts)"
  by pat_completeness auto
termination
  by (relation "measure (\<lambda>(w, maxSteps, currentStep, extractedContacts, result).
        nat (maxSteps - int currentStep))") auto

declare agentLoop.simps [simp del]

text \<open>The \<open>catch\<close> block of \<open>runTask\<close>: it has \<open>result\<close> and \<open>extractedContacts\<close> in scope and
  writes three fields of \<open>result\<close>.\<close>

definition catchBlock :: "JsError \<Rightarrow> AgentResult \<Rightarrow> Contact list \<Rightarrow> AgentResult" where
  "catchBlock error result extractedContacts =
     result\<lparr>r_error := Some (e_message error), r_success := False,
            r_answer := Some (''Error occurred: '' @ e_message error)\<rparr>"

definition initialResult :: AgentResult where
  "initialResult =
     \<lparr>r_success = False, r_answer = None, r_steps = 0, r_actions = [], r_contacts = [],
      r_error = None, r_finalURL = None\<rparr>"

definition runTask :: "World \<Rightarrow> string \<Rightarrow> int \<Rightarrow> AgentResult" where
  "runTask w task maxSteps =
     (case withErrorHandling ''navigation'' (browser_newTab (w_loadURL w) ''https://www.google.com'') of
        Inl error \<Rightarrow> catchBlock error initialResult []
      | Inr u \<Rightarrow>
          (case agentLoop w maxSteps 0 [] (pushAction initialResult ''Navigate to Google'') of
             Returned result \<Rightarrow> result
           | Thrown error result extractedContacts \<Rightarrow> catchBlock error result extractedContacts
           | Finished result extractedContacts \<Rightarrow>
               (let result1 = result\<lparr>r_answer :=
                      Some (''Max steps ('' @ showInt maxSteps @ '') reached. Partial progress made.'')\<rparr>
                in case w_getCurrentURL w 0 of
                     Inl error \<Rightarrow> catchBlock error result1 extractedContacts
                   | Inr url \<Rightarrow> result1\<lparr>r_finalURL := Some url, r_contacts := extractedContacts\<rparr>)))"

text \<open>The three outcomes of a run, read off the result record.\<close>

definition succeeded :: "AgentResult \<Rightarrow> bool" where
  "succeeded r = (r_success r \<and> r_error r = None)"

definition failed :: "AgentResult \<Rightarrow> bool" where
  "failed r = (\<not> r_success r \<and> r_error r \<noteq> None)"

definition stoppedAtLimit :: "int \<Rightarrow> AgentResult \<Rightarrow> bool" where
  "stoppedAtLimit maxSteps r =
     (\<not> r_success r \<and> r_error r = None \<and> int (r_steps r) = maxSteps \<and>
      r_answer r = Some (''Max steps ('' @ showInt maxSteps @ '') reached. Partial progress made.''))"

section \<open>The model gateway\<close>




















section \<open>Example inputs\<close>

text \<open>Concrete inputs on which the theorems below are evaluated.\<close>

definition quietWorld :: World where
  "quietWorld =
     \<lparr>w_loadURL = (\<lambda>url. Inr ()),
      w_screenshot = (\<lambda>n. Inr ''png''),
      w_modelText = (\<lambda>n. Some ''SCROLL down''),
      w_nativeViewport = (\<lambda>n. None),
      w_dispatchGesture = (\<lambda>n g. Inr ()),
      w_dispatchKeyEvent = (\<lambda>n k. Inr ()),
      w_scrollBy = (\<lambda>n d. Inr ()),
      w_getCurrentURL = (\<lambda>n. Inr ''https://www.google.com/''),
      w_domContacts = (\<lambda>n. Some [])\<rparr>"


definition domContact :: Contact where
  "domContact =
     \<lparr>c_value = ''ir@acme.com'', c_type = Email, c_confidence = 8 / 10, c_source = FromDom,
      c_context = ''body text extraction'', c_validation = None\<rparr>"

text \<open>
  A run in which the model types a query in step 1, the page then shows one contact,
  and the screenshot of step 2 fails.
\<close>

definition lostBridgeWorld :: World where
  "lostBridgeWorld =
     quietWorld\<lparr>w_modelText := (\<lambda>n. Some ''TYPE acme investor relations SUBMIT''),
                w_domContacts := (\<lambda>n. Some [domContact]),
                w_screenshot := (\<lambda>n. if n = 1 then Inr ''png''
                                  else Inl \<lparr>e_name = ''Error'', e_message = ''bridge lost''\<rparr>)\<rparr>"

definition visionContact :: Contact where
  "visionContact =
     \<lparr>c_value = ''sales@acme'', c_type = Email, c_confidence = 9 / 10, c_source = FromVision,
      c_context = ''footer'', c_validation = None\<rparr>"

definition weakContact :: Contact where
  "weakContact =
     \<lparr>c_value = ''office@acme.com'', c_type = Email, c_confidence = 55 / 100,
      c_source = FromDom, c_context = ''body text extraction'', c_validation = None\<rparr>"

definition strongContact :: Contact where
  "strongContact =
     \<lparr>c_value = ''Office@Acme.com'', c_type = Email, c_confidence = 9 / 10,
      c_source = FromDom, c_context = ''mailto link'', c_validation = None\<rparr>"

definition acmeParams :: ContactSearchParams where
  "acmeParams = \<lparr>p_target = ''Acme Corp'', p_contactType = Email, p_location = None\<rparr>"








section \<open>Properties of the action decoder\<close>






subsection \<open>The DONE rule\<close>

























section \<open>Properties of the browser adapter\<close>


lemma browser_click_dispatches:
  "browser_click native dispatch x y = Inr () \<longleftrightarrow>
     dispatch (clickGesture (getViewportDimensions native) x y) = Inr ()"
  by (simp add: browser_click_def Let_def split: sum.split)

text \<open>
  Claim C5. For all integer click coordinates and every viewport of width and height at
  least 1, the gesture that \<open>browser.click\<close> dispatches carries the clamped coordinates
  \<open>x' = max 0 (min x (w - 1))\<close> and \<open>y' = max 0 (min y (h - 1))\<close>, so that
  \<open>0 \<le> x' < w\<close> and \<open>0 \<le> y' < h\<close>.
\<close>

theorem click_clamped:
  assumes "1 \<le> vp_width viewport" and "1 \<le> vp_height viewport"
  shows "g_x (clickGesture viewport x y) = max 0 (min x (vp_width viewport - 1)) \<and>
         g_y (clickGesture viewport x y) = max 0 (min y (vp_height viewport - 1)) \<and>
         0 \<le> g_x (clickGesture viewport x y) \<and> g_x (clickGesture viewport x y) < vp_width viewport \<and>
         0 \<le> g_y (clickGesture viewport x y) \<and> g_y (clickGesture viewport x y) < vp_height viewport"
  using assms by (auto simp: clickGesture_def min_def max_def)

theorem click_clamped_witness:
  "1 \<le> vp_width (getViewportDimensions None) \<and> 1 \<le> vp_height (getViewportDimensions None) \<and>
   g_x (clickGesture (getViewportDimensions None) 500 (- 3)) = 389 \<and>
   g_y (clickGesture (getViewportDimensions None) 500 (- 3)) = 0"
proof -
  have h1: "1 \<le> vp_width (getViewportDimensions None)"
    and h2: "1 \<le> vp_height (getViewportDimensions None)"
    by (simp_all add: getViewportDimensions_def)
  from click_clamped[OF h1 h2, of 500 "- 3"] h1 h2 show ?thesis
    by (simp add: getViewportDimensions_def)
qed


section \<open>Properties of the contact pipeline\<close>



lemma findIndex_nonneg_iff: "0 \<le> findIndex p xs \<longleftrightarrow> (\<exists>x\<in>set xs. p x)"
  by (induction xs) (auto simp: Let_def)

lemma findIndex_append_first:
  assumes "p x"
  shows "findIndex p (pre @ x # xs) = int (length pre) \<longleftrightarrow> (\<forall>y\<in>set pre. \<not> p y)"
  using assms
proof (induction pre)
  case Nil
  then show ?case by simp
next
  case (Cons a pre)
  have nn: "0 \<le> findIndex p (pre @ x # xs)"
    using Cons.prems by (auto simp: findIndex_nonneg_iff)
  show ?case
  proof (cases "p a")
    case True
    then show ?thesis by simp
  next
    case False
    with Cons nn show ?thesis by (auto simp: Let_def)
  qed
qed

lemma unique_from:
  "map snd (filter (\<lambda>(index, contact). int index = findIndex (\<lambda>c. toLowerCase (c_value c) = toLowerCase (c_value contact)) (pre @ xs))
       (enumerate (length pre) xs))
   = deduplicateFrom ((\<lambda>c. toLowerCase (c_value c)) ` set pre) xs"
proof (induction xs arbitrary: pre)
  case Nil
  then show ?case by simp
next
  case (Cons x xs)
  have IH: "map snd (filter (\<lambda>(index, contact). int index = findIndex (\<lambda>c. toLowerCase (c_value c) = toLowerCase (c_value contact)) (pre @ x # xs))
       (enumerate (Suc (length pre)) xs))
   = deduplicateFrom ((\<lambda>c. toLowerCase (c_value c)) ` set (pre @ [x])) xs"
    using Cons.IH[of "pre @ [x]"] by simp
  have "findIndex (\<lambda>c. toLowerCase (c_value c) = toLowerCase (c_value x)) (pre @ x # xs) = int (length pre)
      \<longleftrightarrow> (\<forall>y\<in>set pre. toLowerCase (c_value y) \<noteq> toLowerCase (c_value x))"
    by (rule findIndex_append_first) simp
  then have first: "int (length pre) = findIndex (\<lambda>c. toLowerCase (c_value c) = toLowerCase (c_value x)) (pre @ x # xs)
      \<longleftrightarrow> toLowerCase (c_value x) \<notin> (\<lambda>c. toLowerCase (c_value c)) ` set pre"
    by (metis (mono_tags, lifting) image_iff)
  show ?case
  proof (cases "toLowerCase (c_value x) \<in> (\<lambda>c. toLowerCase (c_value c)) ` set pre")
    case True
    then have "(\<lambda>c. toLowerCase (c_value c)) ` set (pre @ [x]) = (\<lambda>c. toLowerCase (c_value c)) ` set pre" by auto
    with True first IH show ?thesis by simp
  next
    case False
    with first IH show ?thesis by simp
  qed
qed

lemma uniqueContacts_eq: "uniqueContacts xs = deduplicateContacts xs"
  using unique_from[of "[]" xs] by (simp add: uniqueContacts_def deduplicateContacts_def)

lemma deduplicateFrom_subset: "set (deduplicateFrom seen xs) \<subseteq> set xs"
  by (induction xs arbitrary: seen) auto

lemma deduplicateFrom_fresh: "c \<in> set (deduplicateFrom seen xs) \<Longrightarrow> toLowerCase (c_value c) \<notin> seen"
  by (induction xs arbitrary: seen) (auto split: if_splits)

lemma deduplicateFrom_distinct: "distinct (map (\<lambda>c. toLowerCase (c_value c)) (deduplicateFrom seen xs))"
proof (induction xs arbitrary: seen)
  case Nil
  then show ?case by simp
next
  case (Cons x xs)
  have "toLowerCase (c_value x) \<notin> (\<lambda>c. toLowerCase (c_value c)) ` set (deduplicateFrom (insert (toLowerCase (c_value x)) seen) xs)"
    using deduplicateFrom_fresh[of _ "insert (toLowerCase (c_value x)) seen" xs] by (metis (no_types, lifting) image_iff insertI1)
  with Cons.IH show ?case by simp
qed

lemma deduplicateFrom_id:
  "distinct (map (\<lambda>c. toLowerCase (c_value c)) xs) \<Longrightarrow> \<forall>c\<in>set xs. toLowerCase (c_value c) \<notin> seen \<Longrightarrow> deduplicateFrom seen xs = xs"
proof (induction xs arbitrary: seen)
  case Nil
  then show ?case by simp
next
  case (Cons x xs)
  from Cons.prems have "\<forall>c\<in>set xs. toLowerCase (c_value c) \<notin> insert (toLowerCase (c_value x)) seen"
    by (metis (no_types, lifting) distinct.simps(2) image_eqI insert_iff list.set_intros(2) list.simps(9) set_map)
  with Cons show ?case by simp
qed

lemma deduplicateContacts_id:
  "distinct (map (\<lambda>c. toLowerCase (c_value c)) xs) \<Longrightarrow> deduplicateContacts xs = xs"
  by (simp add: deduplicateContacts_def deduplicateFrom_id)

lemma deduplicateContacts_distinct: "distinct (map (\<lambda>c. toLowerCase (c_value c)) (deduplicateContacts xs))"
  by (simp add: deduplicateContacts_def deduplicateFrom_distinct)

lemma deduplicateContacts_idem: "deduplicateContacts (deduplicateContacts xs) = deduplicateContacts xs"
  by (rule deduplicateContacts_id) (rule deduplicateContacts_distinct)

lemma distinct_keys_sort:
  "distinct (map g xs) \<Longrightarrow> distinct (map g (sort_key f xs))"
  by (simp add: distinct_map)

lemma distinct_keys_filter:
  "distinct (map g xs) \<Longrightarrow> distinct (map g (filter P xs))"
  by (simp add: distinct_map_filter)

lemma distinct_keys_take:
  "distinct (map g xs) \<Longrightarrow> distinct (map g (take n xs))"
  by (metis distinct_take take_map)

lemma sorted_keys_take: "sorted (map f xs) \<Longrightarrow> sorted (map f (take n xs))"
  by (metis sorted_wrt_take take_map)

lemma cleanupContacts_idem: "cleanupContacts (cleanupContacts xs) = cleanupContacts xs"
proof -
  let ?f = "\<lambda>c. - c_confidence c"
  let ?P = "\<lambda>c. c_confidence c > 5 / 10"
  let ?out = "cleanupContacts xs"
  have out: "?out = take 10 (filter ?P (sort_key ?f (deduplicateContacts xs)))"
    by (simp add: cleanupContacts_def uniqueContacts_eq)
  have d: "distinct (map (\<lambda>c. toLowerCase (c_value c)) ?out)"
    unfolding out
    by (intro distinct_keys_take distinct_keys_filter distinct_keys_sort)
       (rule deduplicateContacts_distinct)
  have s: "sorted (map ?f ?out)"
    unfolding out by (intro sorted_keys_take sorted_filter sorted_sort_key)
  have p: "\<forall>c\<in>set ?out. ?P c"
    unfolding out by (auto dest: in_set_takeD)
  have l: "length ?out \<le> 10"
    unfolding out by simp
  have "cleanupContacts ?out = take 10 (filter ?P (sort_key ?f ?out))"
    using d by (simp add: cleanupContacts_def uniqueContacts_eq deduplicateContacts_id)
  also have "\<dots> = take 10 (filter ?P ?out)"
    using s by (simp add: sort_key_id_if_sorted)
  also have "\<dots> = take 10 ?out"
    using p by simp
  also have "\<dots> = ?out"
    using l by simp
  finally show ?thesis .
qed

text \<open>
  Claim C7. The stage that deduplicates, sorts, filters and caps is idempotent: applying
  \<open>cleanupContacts\<close> to its own output changes nothing (same contacts, same confidences,
  same order), and neither does applying \<open>_deduplicateContacts\<close> to its own output.
\<close>

theorem merge_idempotent:
  "cleanupContacts (cleanupContacts l) = cleanupContacts l \<and>
   deduplicateContacts (deduplicateContacts l) = deduplicateContacts l"
  by (simp add: cleanupContacts_idem deduplicateContacts_idem)

theorem merge_idempotent_witness:
  "cleanupContacts (cleanupContacts [weakContact, strongContact, domContact]) =
     cleanupContacts [weakContact, strongContact, domContact] \<and>
   cleanupContacts [weakContact, strongContact, domContact] = [domContact, weakContact] \<and>
   deduplicateContacts (deduplicateContacts [weakContact, strongContact, domContact]) =
     deduplicateContacts [weakContact, strongContact, domContact]"
proof -
  have "cleanupContacts [weakContact, strongContact, domContact] = [domContact, weakContact]"
    by code_simp
  with merge_idempotent[of "[weakContact, strongContact, domContact]"] show ?thesis by simp
qed

text \<open>
  Claim C6, evaluated on the code. The claim asks that no contact of a final confidence
  below 0.6 is returned. The validation tool computes the filtered list
  \<open>highConfidenceContacts\<close>, but the extraction tool returns \<open>validatedContacts\<close>, the list
  before the filter: a contact that the vision extractor reports as \<open>sales@acme\<close> comes
  back with confidence 0.405 although \<open>highConfidenceContacts\<close> is empty. The vision
  agent's \<open>cleanupContacts\<close> filters at 0.5 and keeps a contact of confidence 0.55.
\<close>

theorem extraction_keeps_low_confidence:
  "map c_confidence (extractionMerge [] [visionContact] True acmeParams) = [405 / 1000] \<and>
   (405 / 1000 :: rat) < 6 / 10 \<and>
   highConfidenceContacts
     (contactValidationTool (deduplicateContacts [visionContact]) (p_target acmeParams)
        (p_contactType acmeParams) (p_location acmeParams)) = [] \<and>
   cleanupContacts [weakContact] = [weakContact] \<and>
   c_confidence weakContact < 6 / 10"
  by code_simp

section \<open>Properties of the agent loop\<close>


lemma executeAction_fields:
  assumes "executeAction w n action result = Inr result'"
  shows "r_success result' = r_success result \<and> r_error result' = r_error result \<and>
         r_steps result' = r_steps result \<and> r_finalURL result' = r_finalURL result \<and>
         r_contacts result' = r_contacts result"
proof -
  have "result' = result \<or> (\<exists>line. result' = pushAction result line)"
    using assms unfolding executeAction_def Let_def
    by (cases "a_type action") (auto split: if_splits sum.splits)
  then show ?thesis by (auto simp: pushAction_def)
qed

lemma iteration_cases:
  obtains (shot) error where "w_screenshot w n = Inl error"
      and "iteration w n extracted result =
             Throw (newError (''Browser operation failed (screenshot): '' @ errorString error))
               (result\<lparr>r_steps := n\<rparr>) extracted"
  | (url) error result4 where "a_type (nextAction (w_modelText w n)) = Done"
      and "w_getCurrentURL w n = Inl error"
      and "iteration w n extracted result = Throw error result4 extracted"
      and "r_error result4 = r_error result" and "r_steps result4 = n"
      and "r_contacts result4 = r_contacts result" and "r_finalURL result4 = r_finalURL result"
  | (finish) url result5 where "a_type (nextAction (w_modelText w n)) = Done"
      and "w_getCurrentURL w n = Inr url"
      and "iteration w n extracted result = Return result5"
      and "r_success result5" and "r_error result5 = r_error result" and "r_steps result5 = n"
      and "r_finalURL result5 = Some url"
      and "r_contacts result5 = (if extracted = [] then extractFinalContacts w n else extracted)"
  | (act) error result3 where "a_type (nextAction (w_modelText w n)) \<noteq> Done"
      and "iteration w n extracted result = Throw error result3 extracted"
      and "r_error result3 = r_error result" and "r_steps result3 = n"
      and "r_contacts result3 = r_contacts result" and "r_finalURL result3 = r_finalURL result"
  | (go) result4 extracted' where "a_type (nextAction (w_modelText w n)) \<noteq> Done"
      and "iteration w n extracted result = Continue result4 extracted'"
      and "r_success result4 = r_success result" and "r_error result4 = r_error result"
      and "r_steps result4 = n"
proof (cases "w_screenshot w n")
  case (Inl error)
  then show ?thesis
    by (intro shot[of error]) (simp_all add: iteration_def withErrorHandling_def)
next
  case (Inr screenshot)
  define action where "action = nextAction (w_modelText w n)"
  define result3 where "result3 =
    pushAction (pushAction (result\<lparr>r_steps := n\<rparr>) (''Screenshot #'' @ showNat n))
      (geminiActionLine action)"
  have r3: "r_success result3 = r_success result" "r_error result3 = r_error result"
    "r_steps result3 = n" "r_contacts result3 = r_contacts result"
    "r_finalURL result3 = r_finalURL result"
    by (simp_all add: result3_def pushAction_def)
  show ?thesis
  proof (cases "a_type action = Done")
    case True
    define result4 where "result4 = result3\<lparr>r_success := True,
        r_answer := Some (if truthyString (a_answer action) then the (a_answer action)
                          else ''Task completed successfully'')\<rparr>"
    have it: "iteration w n extracted result =
      (case w_getCurrentURL w n of
         Inl error \<Rightarrow> Throw error result4 extracted
       | Inr url \<Rightarrow>
           Return (result4\<lparr>r_finalURL := Some url,
             r_contacts := (if extracted = [] then extractFinalContacts w n else extracted)\<rparr>))"
      using Inr True
      by (simp add: iteration_def withErrorHandling_def Let_def action_def
          result3_def result4_def split: sum.split)
    show ?thesis
    proof (cases "w_getCurrentURL w n")
      case (Inl error)
      with it True r3 show ?thesis
        by (intro url[of error result4]) (simp_all add: action_def result4_def)
    next
      case (Inr u)
      with it True r3 show ?thesis
        by (intro finish[of u "result4\<lparr>r_finalURL := Some u,
             r_contacts := (if extracted = [] then extractFinalContacts w n else extracted)\<rparr>"])
           (simp_all add: action_def result4_def)
    qed
  next
    case False
    have it: "iteration w n extracted result =
      (case executeAction w n action result3 of
         Inl error \<Rightarrow> Throw error result3 extracted
       | Inr result4 \<Rightarrow>
           if a_type action = Click \<or> a_type action = Type then
             (let newContacts = extractContactsFromCurrentPage w n
              in if newContacts \<noteq> []
                 then Continue result4 (newSet (extracted @ newContacts))
                 else Continue result4 extracted)
           else Continue result4 extracted)"
      using Inr False
      by (simp add: iteration_def withErrorHandling_def Let_def action_def
          result3_def split: sum.split)
    show ?thesis
    proof (cases "executeAction w n action result3")
      case (Inl error)
      with it False r3 show ?thesis
        by (intro act[of error result3]) (simp_all add: action_def)
    next
      case (Inr result4)
      have f: "r_success result4 = r_success result" "r_error result4 = r_error result"
        "r_steps result4 = n"
        using executeAction_fields[OF Inr] r3 by simp_all
      from it Inr obtain extracted' where "iteration w n extracted result = Continue result4 extracted'"
        by (simp add: Let_def split: if_splits)
      with False f show ?thesis
        by (intro go[of result4 extracted']) (simp_all add: action_def)
    qed
  qed
qed

lemma agentLoop_Returned:
  assumes "agentLoop w maxSteps currentStep extracted result = Returned r"
    and "r_error result = None"
  shows "r_success r \<and> r_error r = None \<and> int (r_steps r) \<le> maxSteps \<and>
         a_type (nextAction (w_modelText w (r_steps r))) = Done \<and> r_finalURL r \<noteq> None"
  using assms
proof (induction w maxSteps currentStep extracted result rule: agentLoop.induct)
  case (1 w maxSteps currentStep extractedContacts result)
  note unfold = agentLoop.simps[of w maxSteps currentStep extractedContacts result]
  from "1.prems"(1) have lt: "int currentStep < maxSteps"
    by (simp add: unfold split: if_splits)
  show ?case
  proof (cases rule: iteration_cases[of w "Suc currentStep" extractedContacts result])
    case (shot error)
    with lt "1.prems" show ?thesis by (simp add: unfold)
  next
    case (url error result4)
    with lt "1.prems" show ?thesis by (simp add: unfold)
  next
    case (finish url result5)
    with lt "1.prems" have "r = result5" by (simp add: unfold)
    with finish lt "1.prems"(2) show ?thesis by auto
  next
    case (act error result3)
    with lt "1.prems" show ?thesis by (simp add: unfold)
  next
    case (go result4 extracted')
    with lt "1.prems" have "agentLoop w maxSteps (Suc currentStep) extracted' result4 = Returned r"
      by (simp add: unfold)
    moreover have "r_error result4 = None"
      using go "1.prems"(2) by simp
    ultimately show ?thesis
      using "1.IH"[OF lt go(2)] by blast
  qed
qed

lemma agentLoop_Finished:
  assumes "agentLoop w maxSteps currentStep extracted result = Finished r extracted'"
    and "r_error result = None" and "\<not> r_success result" and "r_steps result = currentStep"
    and "int currentStep \<le> maxSteps"
  shows "\<not> r_success r \<and> r_error r = None \<and> int (r_steps r) = maxSteps"
  using assms
proof (induction w maxSteps currentStep extracted result rule: agentLoop.induct)
  case (1 w maxSteps currentStep extractedContacts result)
  note unfold = agentLoop.simps[of w maxSteps currentStep extractedContacts result]
  show ?case
  proof (cases "int currentStep < maxSteps")
    case False
    with "1.prems" show ?thesis by (simp add: unfold)
  next
    case lt: True
    show ?thesis
    proof (cases rule: iteration_cases[of w "Suc currentStep" extractedContacts result])
      case (shot error)
      with lt "1.prems" show ?thesis by (simp add: unfold)
    next
      case (url error result4)
      with lt "1.prems" show ?thesis by (simp add: unfold)
    next
      case (finish url result5)
      with lt "1.prems" show ?thesis by (simp add: unfold)
    next
      case (act error result3)
      with lt "1.prems" show ?thesis by (simp add: unfold)
    next
      case (go result4 extracted'')
      with lt "1.prems" have "agentLoop w maxSteps (Suc currentStep) extracted'' result4 = Finished r extracted'"
        by (simp add: unfold)
      moreover have "r_error result4 = None" "\<not> r_success result4" "r_steps result4 = Suc currentStep"
        using go "1.prems" by simp_all
      moreover have "int (Suc currentStep) \<le> maxSteps" using lt by simp
      ultimately show ?thesis
        using "1.IH"[OF lt go(2)] by blast
    qed
  qed
qed

lemma agentLoop_Thrown:
  assumes "agentLoop w maxSteps currentStep extracted result = Thrown error r extracted'"
    and "r_error result = None"
  shows "r_error r = None \<and> int (r_steps r) \<le> maxSteps"
  using assms
proof (induction w maxSteps currentStep extracted result rule: agentLoop.induct)
  case (1 w maxSteps currentStep extractedContacts result)
  note unfold = agentLoop.simps[of w maxSteps currentStep extractedContacts result]
  from "1.prems"(1) have lt: "int currentStep < maxSteps"
    by (simp add: unfold split: if_splits)
  show ?case
  proof (cases rule: iteration_cases[of w "Suc currentStep" extractedContacts result])
    case (shot error')
    with lt "1.prems" show ?thesis by (auto simp: unfold)
  next
    case (url error' result4)
    with lt "1.prems" show ?thesis by (auto simp: unfold)
  next
    case (finish url result5)
    with lt "1.prems" show ?thesis by (simp add: unfold)
  next
    case (act error' result3)
    with lt "1.prems" show ?thesis by (auto simp: unfold)
  next
    case (go result4 extracted'')
    with lt "1.prems" have "agentLoop w maxSteps (Suc currentStep) extracted'' result4 = Thrown error r extracted'"
      by (simp add: unfold)
    moreover have "r_error result4 = None"
      using go "1.prems"(2) by simp
    ultimately show ?thesis
      using "1.IH"[OF lt go(2)] by blast
  qed
qed

lemma catchBlock_failed: "failed (catchBlock error result extracted) \<and>
    r_steps (catchBlock error result extracted) = r_steps result"
  by (simp add: failed_def catchBlock_def)

text \<open>
  Claim C2. \<open>agentLoop\<close> is a total function (its termination is proved with the measure
  \<open>maxSteps - currentStep\<close>), so \<open>runTask\<close> always returns. For every \<open>maxSteps\<close> of at
  least 1 the run makes at most \<open>maxSteps\<close> passes through the loop, and its outcome is
  exactly one of three: success, which only a done action brings about; stopped at the
  step limit after exactly \<open>maxSteps\<close> passes; or failed with an error recorded.
\<close>

theorem runTask_terminates:
  assumes "1 \<le> maxSteps"
  shows "int (r_steps (runTask w task maxSteps)) \<le> maxSteps \<and>
    (succeeded (runTask w task maxSteps) \<or> stoppedAtLimit maxSteps (runTask w task maxSteps) \<or>
     failed (runTask w task maxSteps)) \<and>
    \<not> (succeeded (runTask w task maxSteps) \<and> stoppedAtLimit maxSteps (runTask w task maxSteps)) \<and>
    \<not> (succeeded (runTask w task maxSteps) \<and> failed (runTask w task maxSteps)) \<and>
    \<not> (stoppedAtLimit maxSteps (runTask w task maxSteps) \<and> failed (runTask w task maxSteps)) \<and>
    (succeeded (runTask w task maxSteps) \<longrightarrow>
       a_type (nextAction (w_modelText w (r_steps (runTask w task maxSteps)))) = Done)"
proof -
  let ?r = "runTask w task maxSteps"
  let ?start = "pushAction initialResult ''Navigate to Google''"
  have excl: "\<not> (succeeded ?r \<and> stoppedAtLimit maxSteps ?r)" "\<not> (succeeded ?r \<and> failed ?r)"
    "\<not> (stoppedAtLimit maxSteps ?r \<and> failed ?r)"
    by (auto simp: succeeded_def stoppedAtLimit_def failed_def)
  have s0: "r_error ?start = None" "\<not> r_success ?start" "r_steps ?start = 0"
    by (simp_all add: pushAction_def initialResult_def)
  have main: "int (r_steps ?r) \<le> maxSteps \<and>
    (succeeded ?r \<and> a_type (nextAction (w_modelText w (r_steps ?r))) = Done \<or>
     stoppedAtLimit maxSteps ?r \<or> failed ?r)"
  proof (cases "withErrorHandling ''navigation'' (browser_newTab (w_loadURL w) ''https://www.google.com'')")
    case (Inl error)
    then have "?r = catchBlock error initialResult []" by (simp add: runTask_def)
    with assms catchBlock_failed[of error initialResult "[]"] show ?thesis
      by (simp add: initialResult_def)
  next
    case (Inr u)
    show ?thesis
    proof (cases "agentLoop w maxSteps 0 [] ?start")
      case (Returned result)
      with Inr have "?r = result" by (simp add: runTask_def)
      with agentLoop_Returned[OF Returned s0(1)] show ?thesis
        by (simp add: succeeded_def)
    next
      case (Thrown error result extracted)
      with Inr have "?r = catchBlock error result extracted" by (simp add: runTask_def)
      with agentLoop_Thrown[OF Thrown s0(1)] catchBlock_failed[of error result extracted]
      show ?thesis by simp
    next
      case (Finished result extracted)
      have f: "\<not> r_success result" "r_error result = None" "int (r_steps result) = maxSteps"
        using agentLoop_Finished[OF Finished s0] assms by simp_all
      let ?r1 = "result\<lparr>r_answer :=
          Some (''Max steps ('' @ showInt maxSteps @ '') reached. Partial progress made.'')\<rparr>"
      show ?thesis
      proof (cases "w_getCurrentURL w 0")
        case (Inl error)
        with Inr Finished have "?r = catchBlock error ?r1 extracted"
          by (simp add: runTask_def Let_def)
        with f catchBlock_failed[of error ?r1 extracted] show ?thesis by simp
      next
        case (Inr url)
        with \<open>withErrorHandling ''navigation'' _ = Inr u\<close> Finished
        have "?r = ?r1\<lparr>r_finalURL := Some url, r_contacts := extracted\<rparr>"
          by (simp add: runTask_def Let_def)
        with f show ?thesis by (simp add: stoppedAtLimit_def)
      qed
    qed
  qed
  with excl show ?thesis by blast
qed

theorem runTask_terminates_witness:
  "(1 :: int) \<le> 3 \<and>
   int (r_steps (runTask quietWorld ''find investor emails'' 3)) \<le> 3 \<and>
   stoppedAtLimit 3 (runTask quietWorld ''find investor emails'' 3) \<and>
   \<not> succeeded (runTask quietWorld ''find investor emails'' 3) \<and>
   \<not> failed (runTask quietWorld ''find investor emails'' 3)"
proof -
  have h: "(1 :: int) \<le> 3" by simp
  have e: "stoppedAtLimit 3 (runTask quietWorld ''find investor emails'' 3)" by code_simp
  from runTask_terminates[OF h, of quietWorld "''find investor emails''"] e h
  show ?thesis by blast
qed

text \<open>
  Claim C8, evaluated on the code. The claim asks that the result holds the contacts
  gathered so far and the final URL on every outcome. The \<open>catch\<close> block writes neither:
  in the run below one contact has been gathered when the screenshot of step 2 fails,
  and the result has no contact and no final URL. The two other outcomes write both
  fields.
\<close>

theorem runTask_failure_drops_progress:
  "(case agentLoop lostBridgeWorld 3 0 [] (pushAction initialResult ''Navigate to Google'') of
      Thrown error result extractedContacts \<Rightarrow> extractedContacts = [domContact]
    | Returned result \<Rightarrow> False
    | Finished result extractedContacts \<Rightarrow> False) \<and>
   failed (runTask lostBridgeWorld ''find investor emails'' 3) \<and>
   r_contacts (runTask lostBridgeWorld ''find investor emails'' 3) = [] \<and>
   r_finalURL (runTask lostBridgeWorld ''find investor emails'' 3) = None \<and>
   r_contacts (runTask (lostBridgeWorld\<lparr>w_screenshot := (\<lambda>n. Inr ''png'')\<rparr>)
                 ''find investor emails'' 3) = [domContact] \<and>
   r_finalURL (runTask (lostBridgeWorld\<lparr>w_screenshot := (\<lambda>n. Inr ''png'')\<rparr>)
                 ''find investor emails'' 3) = Some ''https://www.google.com/''"
  by code_simp




section \<open>Properties of the model gateway\<close>




















end
